theory Spec2Isabelle
  imports Complex_Main
begin

section \<open>JavaScript numbers\<close>

text \<open>
  The parser of \<^verbatim>\<open>adv-moto-web/src/services/gpxParser.ts\<close> computes with JavaScript
  numbers. A number is modelled as \<open>NaN\<close>, one of the two infinities, or a finite value
  taken as an exact real: the rounding of IEEE double arithmetic and the sign of zero are
  not modelled, and a finite operation never overflows.
\<close>

datatype jsnum = NaN | PInf | NInf | Fin real

fun isNaN :: "jsnum \<Rightarrow> bool" where
  "isNaN NaN = True"
| "isNaN _ = False"

fun isFinite :: "jsnum \<Rightarrow> bool" where
  "isFinite (Fin _) = True"
| "isFinite _ = False"

fun js_neg :: "jsnum \<Rightarrow> jsnum" where
  "js_neg NaN = NaN"
| "js_neg PInf = NInf"
| "js_neg NInf = PInf"
| "js_neg (Fin x) = Fin (- x)"

text \<open>\<open>a + b\<close>\<close>

fun js_add :: "jsnum \<Rightarrow> jsnum \<Rightarrow> jsnum" where
  "js_add (Fin x) (Fin y) = Fin (x + y)"
| "js_add NaN _ = NaN"
| "js_add _ NaN = NaN"
| "js_add PInf NInf = NaN"
| "js_add NInf PInf = NaN"
| "js_add PInf _ = PInf"
| "js_add _ PInf = PInf"
| "js_add NInf _ = NInf"
| "js_add _ NInf = NInf"

text \<open>\<open>a - b\<close>\<close>

definition js_sub :: "jsnum \<Rightarrow> jsnum \<Rightarrow> jsnum" where
  "js_sub a b = js_add a (js_neg b)"

fun js_negative :: "jsnum \<Rightarrow> bool" where
  "js_negative NInf = True"
| "js_negative (Fin x) = (x < 0)"
| "js_negative _ = False"

text \<open>\<open>a * b\<close>: an infinity times zero is \<open>NaN\<close>.\<close>

fun js_mul :: "jsnum \<Rightarrow> jsnum \<Rightarrow> jsnum" where
  "js_mul (Fin x) (Fin y) = Fin (x * y)"
| "js_mul a b =
     (if a = NaN \<or> b = NaN \<or> a = Fin 0 \<or> b = Fin 0 then NaN
      else if js_negative a \<noteq> js_negative b then NInf else PInf)"

text \<open>\<open>a / b\<close>: a zero divisor is taken as \<open>+0\<close>.\<close>

fun js_div :: "jsnum \<Rightarrow> jsnum \<Rightarrow> jsnum" where
  "js_div (Fin x) (Fin y) =
     (if y = 0 then (if x = 0 then NaN else if x < 0 then NInf else PInf)
      else Fin (x / y))"
| "js_div NaN _ = NaN"
| "js_div _ NaN = NaN"
| "js_div (Fin x) _ = Fin 0"
| "js_div a (Fin y) = (if js_negative a \<noteq> (y < 0) then NInf else PInf)"
| "js_div _ _ = NaN"

text \<open>\<open>a > b\<close>: every comparison with \<open>NaN\<close> is false.\<close>

fun js_gt :: "jsnum \<Rightarrow> jsnum \<Rightarrow> bool" where
  "js_gt (Fin x) (Fin y) = (x > y)"
| "js_gt NaN _ = False"
| "js_gt _ NaN = False"
| "js_gt NInf _ = False"
| "js_gt _ PInf = False"
| "js_gt _ _ = True"

fun Math_abs :: "jsnum \<Rightarrow> jsnum" where
  "Math_abs NaN = NaN"
| "Math_abs (Fin x) = Fin \<bar>x\<bar>"
| "Math_abs _ = PInf"

text \<open>\<open>Math.round\<close> rounds to the nearest integer, a half upwards.\<close>

fun Math_round :: "jsnum \<Rightarrow> jsnum" where
  "Math_round (Fin x) = Fin (of_int \<lfloor>x + 1 / 2\<rfloor>)"
| "Math_round a = a"

fun Math_sin :: "jsnum \<Rightarrow> jsnum" where
  "Math_sin (Fin x) = Fin (sin x)"
| "Math_sin _ = NaN"

fun Math_cos :: "jsnum \<Rightarrow> jsnum" where
  "Math_cos (Fin x) = Fin (cos x)"
| "Math_cos _ = NaN"

fun Math_sqrt :: "jsnum \<Rightarrow> jsnum" where
  "Math_sqrt (Fin x) = (if x < 0 then NaN else Fin (sqrt x))"
| "Math_sqrt PInf = PInf"
| "Math_sqrt _ = NaN"

text \<open>The angle of the point \<open>(x, y)\<close>, in \<open>(-\<pi>, \<pi>]\<close>.\<close>

definition atan2 :: "real \<Rightarrow> real \<Rightarrow> real" where
  "atan2 y x =
     (if x > 0 then arctan (y / x)
      else if x < 0 then (if y \<ge> 0 then arctan (y / x) + pi else arctan (y / x) - pi)
      else if y > 0 then pi / 2 else if y < 0 then - (pi / 2) else 0)"

fun Math_atan2 :: "jsnum \<Rightarrow> jsnum \<Rightarrow> jsnum" where
  "Math_atan2 (Fin y) (Fin x) = Fin (atan2 y x)"
| "Math_atan2 NaN _ = NaN"
| "Math_atan2 _ NaN = NaN"
| "Math_atan2 (Fin y) PInf = Fin 0"
| "Math_atan2 (Fin y) NInf = (if y < 0 then Fin (- pi) else Fin pi)"
| "Math_atan2 PInf (Fin x) = Fin (pi / 2)"
| "Math_atan2 NInf (Fin x) = Fin (- (pi / 2))"
| "Math_atan2 PInf PInf = Fin (pi / 4)"
| "Math_atan2 PInf NInf = Fin (3 * pi / 4)"
| "Math_atan2 NInf PInf = Fin (- (pi / 4))"
| "Math_atan2 NInf NInf = Fin (- (3 * pi / 4))"

text \<open>\<open>x || 0\<close> on an optional number: \<open>undefined\<close>, \<open>NaN\<close> and zero are falsy.\<close>

fun or_zero :: "jsnum option \<Rightarrow> jsnum" where
  "or_zero None = Fin 0"
| "or_zero (Some NaN) = Fin 0"
| "or_zero (Some a) = a"

section \<open>Data model\<close>

text \<open>\<^verbatim>\<open>GPXTrackPoint\<close> and \<^verbatim>\<open>GPXData\<close> of the types module.\<close>

record GPXTrackPoint =
  lat :: jsnum
  lon :: jsnum
  ele :: "jsnum option"
  time :: "string option"

record GPXData =
  name :: "string option"
  points :: "GPXTrackPoint list"
  distance :: jsnum
  elevationGain :: jsnum
  elevationLoss :: jsnum
  estimatedTime :: jsnum

text \<open>What \<^verbatim>\<open>calculateStats\<close> returns, spread into the \<^verbatim>\<open>GPXData\<close> by \<^verbatim>\<open>parse\<close>.\<close>

record Stats =
  st_distance :: jsnum
  st_elevationGain :: jsnum
  st_elevationLoss :: jsnum
  st_estimatedTime :: jsnum

datatype error = MalformedDocument | NoTrackData | InsufficientPoints | TypeError

section \<open>Statistics\<close>

definition toRadians :: "jsnum \<Rightarrow> jsnum" where
  "toRadians degrees = js_mul degrees (js_div (Fin pi) (Fin 180))"

definition calculateDistance :: "jsnum \<Rightarrow> jsnum \<Rightarrow> jsnum \<Rightarrow> jsnum \<Rightarrow> jsnum" where
  "calculateDistance lat1 lon1 lat2 lon2 =
     (let R = Fin 6371;
          dLat = toRadians (js_sub lat2 lat1);
          dLon = toRadians (js_sub lon2 lon1);
          a = js_add
                (js_mul (Math_sin (js_div dLat (Fin 2))) (Math_sin (js_div dLat (Fin 2))))
                (js_mul
                  (js_mul
                    (js_mul (Math_cos (toRadians lat1)) (Math_cos (toRadians lat2)))
                    (Math_sin (js_div dLon (Fin 2))))
                  (Math_sin (js_div dLon (Fin 2))));
          c = js_mul (Fin 2) (Math_atan2 (Math_sqrt a) (Math_sqrt (js_sub (Fin 1) a)))
      in js_mul R c)"

text \<open>
  The state of the loop of \<^verbatim>\<open>calculateStats\<close>: \<^verbatim>\<open>totalDistance\<close>,
  \<^verbatim>\<open>elevationGain\<close>, \<^verbatim>\<open>elevationLoss\<close> and \<^verbatim>\<open>lastEle\<close>.
\<close>

record Acc =
  totalDistance :: jsnum
  gain :: jsnum
  loss :: jsnum
  lastEle :: jsnum

text \<open>One iteration, for \<open>prev = points[i - 1]\<close> and \<open>cur = points[i]\<close>.\<close>

definition stats_step :: "GPXTrackPoint \<Rightarrow> GPXTrackPoint \<Rightarrow> Acc \<Rightarrow> Acc" where
  "stats_step prev cur s =
     (let s1 = s\<lparr>totalDistance :=
                 js_add (totalDistance s)
                   (calculateDistance (lat prev) (lon prev) (lat cur) (lon cur))\<rparr>
      in case ele cur of
           None \<Rightarrow> s1
         | Some e \<Rightarrow>
             (let eleDiff = js_sub e (lastEle s1)
              in (if js_gt eleDiff (Fin 0)
                  then s1\<lparr>gain := js_add (gain s1) eleDiff\<rparr>
                  else s1\<lparr>loss := js_add (loss s1) (Math_abs eleDiff)\<rparr>)
                 \<lparr>lastEle := e\<rparr>))"

text \<open>The iterations for \<open>i = 1, ..., length - 1\<close>; \<open>prev\<close> is the point before the rest.\<close>

fun stats_loop :: "GPXTrackPoint \<Rightarrow> GPXTrackPoint list \<Rightarrow> Acc \<Rightarrow> Acc" where
  "stats_loop prev [] s = s"
| "stats_loop prev (cur # rest) s = stats_loop cur rest (stats_step prev cur s)"

text \<open>The accumulators when the loop ends; \<open>points[0].ele\<close> of no point is a TypeError.\<close>

fun stats_acc :: "GPXTrackPoint list \<Rightarrow> error + Acc" where
  "stats_acc [] = Inl TypeError"
| "stats_acc (p0 # rest) =
     Inr (stats_loop p0 rest
       \<lparr>totalDistance = Fin 0, gain = Fin 0, loss = Fin 0, lastEle = or_zero (ele p0)\<rparr>)"

definition avgSpeed :: jsnum where
  "avgSpeed = Fin 30"

definition calculateStats :: "GPXTrackPoint list \<Rightarrow> error + Stats" where
  "calculateStats pts =
     (case stats_acc pts of
        Inl e \<Rightarrow> Inl e
      | Inr s \<Rightarrow>
          (let estimatedTime = Math_round (js_mul (js_div (totalDistance s) avgSpeed) (Fin 60))
           in Inr \<lparr>st_distance = js_div (Math_round (js_mul (totalDistance s) (Fin 100))) (Fin 100),
                   st_elevationGain = Math_round (gain s),
                   st_elevationLoss = Math_round (loss s),
                   st_estimatedTime = estimatedTime\<rparr>))"

section \<open>\<open>parseFloat\<close>\<close>

text \<open>
  The builtin \<^verbatim>\<open>parseFloat\<close>: leading white space (the ASCII one, strings being
  lists of bytes here) is dropped, then the longest prefix
  that is a decimal literal (an optional sign, then \<^verbatim>\<open>Infinity\<close> or digits with an
  optional fraction and an optional exponent) gives the value; without such a prefix the
  value is \<open>NaN\<close>. The value is the exact decimal one.
\<close>

definition is_space :: "char \<Rightarrow> bool" where
  "is_space c = (c \<in> set [CHR 0x09, CHR 0x0A, CHR 0x0B, CHR 0x0C, CHR 0x0D, CHR 0x20])"

definition is_digit :: "char \<Rightarrow> bool" where
  "is_digit c = (c \<in> set ''0123456789'')"

definition digit_val :: "char \<Rightarrow> nat" where
  "digit_val c = of_char c - 48"

definition digits_val :: "string \<Rightarrow> nat" where
  "digits_val ds = foldl (\<lambda>n c. 10 * n + digit_val c) 0 ds"

text \<open>The exponent part at the head of \<open>s\<close>; \<open>0\<close> where there is none.\<close>

definition exponent_part :: "string \<Rightarrow> int" where
  "exponent_part s =
     (case s of
        [] \<Rightarrow> 0
      | c # t \<Rightarrow>
          if c = CHR ''e'' \<or> c = CHR ''E'' then
            (case t of
               [] \<Rightarrow> 0
             | d # u \<Rightarrow>
                 if d = CHR ''+'' then int (digits_val (takeWhile is_digit u))
                 else if d = CHR ''-'' then - int (digits_val (takeWhile is_digit u))
                 else int (digits_val (takeWhile is_digit t)))
          else 0)"

definition scale10 :: "real \<Rightarrow> int \<Rightarrow> real" where
  "scale10 m e = (if e \<ge> 0 then m * 10 ^ nat e else m / 10 ^ nat (- e))"

definition unsigned_literal :: "string \<Rightarrow> jsnum" where
  "unsigned_literal s =
     (if take 8 s = ''Infinity'' then PInf
      else
        let ip = takeWhile is_digit s;
            r1 = dropWhile is_digit s;
            fp = (case r1 of [] \<Rightarrow> [] | c # t \<Rightarrow> if c = CHR ''.'' then takeWhile is_digit t else []);
            r2 = (case r1 of [] \<Rightarrow> [] | c # t \<Rightarrow> if c = CHR ''.'' then dropWhile is_digit t else r1)
        in if ip = [] \<and> fp = [] then NaN
           else Fin (scale10 (real (digits_val ip) + real (digits_val fp) / 10 ^ length fp)
                       (exponent_part r2)))"

definition parseFloat :: "string \<Rightarrow> jsnum" where
  "parseFloat s =
     (case dropWhile is_space s of
        [] \<Rightarrow> NaN
      | c # t \<Rightarrow>
          if c = CHR ''+'' then unsigned_literal t
          else if c = CHR ''-'' then js_neg (unsigned_literal t)
          else unsigned_literal (c # t))"

section \<open>The document\<close>

text \<open>
  The tree that \<^verbatim>\<open>DOMParser\<close> builds: an element has a tag name, attributes and child
  nodes; text nodes carry the character data, entity references resolved.
\<close>

datatype xml_node = Element string "(string \<times> string) list" "xml_node list" | Text string

text \<open>
  The text handed to \<^verbatim>\<open>parse\<close>, as an XML processor reads it: either it is not
  well-formed, or it denotes a tree with one root element.
\<close>

datatype xml_source = NotWellFormed | WellFormed xml_node

datatype document = Document xml_node

text \<open>
  \<^verbatim>\<open>new DOMParser().parseFromString(gpxContent, 'text/xml')\<close> never throws: for text
  that is not well-formed the document it returns holds a \<^verbatim>\<open>parsererror\<close> element
  describing the error.
\<close>

fun parseFromString :: "xml_source \<Rightarrow> document" where
  "parseFromString NotWellFormed = Document (Element ''parsererror'' [] [Text ''error''])"
| "parseFromString (WellFormed tree) = Document tree"

text \<open>The descendants of a node in document order, the node itself left out.\<close>

fun descendants :: "xml_node \<Rightarrow> xml_node list" where
  "descendants (Text s) = []"
| "descendants (Element t as cs) = concat (map (\<lambda>c. c # descendants c) cs)"

fun is_named :: "string \<Rightarrow> xml_node \<Rightarrow> bool" where
  "is_named n (Element t as cs) = (t = n)"
| "is_named n (Text s) = False"

text \<open>\<^verbatim>\<open>element.getElementsByTagName(n)\<close>\<close>

definition getElementsByTagName :: "xml_node \<Rightarrow> string \<Rightarrow> xml_node list" where
  "getElementsByTagName e n = filter (is_named n) (descendants e)"

text \<open>\<^verbatim>\<open>document.getElementsByTagName(n)\<close>: the root element is a candidate too.\<close>

fun doc_getElementsByTagName :: "document \<Rightarrow> string \<Rightarrow> xml_node list" where
  "doc_getElementsByTagName (Document tree) n = filter (is_named n) (tree # descendants tree)"

fun textContent :: "xml_node \<Rightarrow> string" where
  "textContent (Text s) = s"
| "textContent (Element t as cs) = concat (map textContent cs)"

fun getAttribute :: "xml_node \<Rightarrow> string \<Rightarrow> string option" where
  "getAttribute (Element t as cs) n = map_of as n"
| "getAttribute (Text s) n = None"

text \<open>\<open>list[0]\<close>, \<open>undefined\<close> on an empty list.\<close>

fun first :: "'a list \<Rightarrow> 'a option" where
  "first [] = None"
| "first (x # xs) = Some x"

text \<open>\<open>s || d\<close> on an optional string: \<open>null\<close> and the empty string are falsy.\<close>

fun str_or :: "string option \<Rightarrow> string \<Rightarrow> string" where
  "str_or None d = d"
| "str_or (Some []) d = d"
| "str_or (Some s) d = s"

section \<open>\<open>GPXParser.parse\<close>\<close>

text \<open>The body of the loop over \<^verbatim>\<open>trackPoints\<close>; \<open>None\<close> is its \<^verbatim>\<open>continue\<close>.\<close>

definition point_of :: "xml_node \<Rightarrow> GPXTrackPoint option" where
  "point_of point =
     (let lat = parseFloat (str_or (getAttribute point ''lat'') ''0'');
          lon = parseFloat (str_or (getAttribute point ''lon'') ''0'')
      in if isNaN lat \<or> isNaN lon then None
         else
           let eleNode = first (getElementsByTagName point ''ele'');
               timeNode = first (getElementsByTagName point ''time'');
               pt = \<lparr>lat = lat, lon = lon, ele = None, time = None\<rparr>;
               pt = (case eleNode of
                       None \<Rightarrow> pt
                     | Some n \<Rightarrow>
                         if textContent n \<noteq> [] then pt\<lparr>ele := Some (parseFloat (textContent n))\<rparr>
                         else pt);
               pt = (case timeNode of
                       None \<Rightarrow> pt
                     | Some n \<Rightarrow>
                         if textContent n \<noteq> [] then pt\<lparr>time := Some (textContent n)\<rparr>
                         else pt)
           in Some pt)"

fun collect_points :: "xml_node list \<Rightarrow> GPXTrackPoint list" where
  "collect_points [] = []"
| "collect_points (point # rest) =
     (case point_of point of
        None \<Rightarrow> collect_points rest
      | Some pt \<Rightarrow> pt # collect_points rest)"

text \<open>The three tiers, in the order the source tries them.\<close>

definition select_trackPoints :: "document \<Rightarrow> xml_node list" where
  "select_trackPoints xmlDoc =
     (let trackPoints = doc_getElementsByTagName xmlDoc ''trkpt'';
          trackPoints = (if length trackPoints = 0
                         then doc_getElementsByTagName xmlDoc ''rtept'' else trackPoints);
          trackPoints = (if length trackPoints = 0
                         then doc_getElementsByTagName xmlDoc ''wpt'' else trackPoints)
      in trackPoints)"

definition parse :: "xml_source \<Rightarrow> error + GPXData" where
  "parse gpxContent =
     (let xmlDoc = parseFromString gpxContent;
          parseError = doc_getElementsByTagName xmlDoc ''parsererror''
      in if length parseError > 0 then Inl MalformedDocument
         else
           let trackPoints = select_trackPoints xmlDoc
           in if length trackPoints = 0 then Inl NoTrackData
              else
                let points = collect_points trackPoints
                in if length points < 2 then Inl InsufficientPoints
                   else
                     (case calculateStats points of
                        Inl e \<Rightarrow> Inl e
                      | Inr stats \<Rightarrow>
                          let nameNode = first (doc_getElementsByTagName xmlDoc ''name'');
                              name = (case nameNode of
                                        None \<Rightarrow> None
                                      | Some n \<Rightarrow>
                                          if textContent n \<noteq> [] then Some (textContent n)
                                          else None)
                          in Inr \<lparr>name = name, points = points,
                                  distance = st_distance stats,
                                  elevationGain = st_elevationGain stats,
                                  elevationLoss = st_elevationLoss stats,
                                  estimatedTime = st_estimatedTime stats\<rparr>))"

text \<open>\<^verbatim>\<open>toGeoJSONCoordinates\<close> and \<^verbatim>\<open>getElevationData\<close>\<close>

definition toGeoJSONCoordinates :: "GPXData \<Rightarrow> jsnum list list" where
  "toGeoJSONCoordinates gpxData = map (\<lambda>p. [lon p, lat p]) (points gpxData)"

definition getElevationData :: "GPXData \<Rightarrow> jsnum list" where
  "getElevationData gpxData = map (\<lambda>p. or_zero (ele p)) (points gpxData)"

section \<open>\<open>GPXParser.generateGPX\<close>\<close>

text \<open>
  \<^verbatim>\<open>Number::toString\<close>, as a template literal applies it. For a finite value other
  than zero the standard takes integers \<open>n\<close>, \<open>k\<close> and \<open>s\<close> with \<open>k\<close> digits in \<open>s\<close>,
  value \<open>s * 10 ^ (n - k)\<close> and \<open>k\<close> as small as possible, and lays the digits of \<open>s\<close> out
  by the size of \<open>n\<close>. Here the digits are those of the exact decimal expansion, cut
  after 17 of them, where a double has the shortest digits that read back as itself.
\<close>

definition digit_char :: "nat \<Rightarrow> char" where
  "digit_char d = ''0123456789'' ! d"

function nat_digits :: "nat \<Rightarrow> string" where
  "nat_digits n = (if n < 10 then [digit_char n] else nat_digits (n div 10) @ [digit_char (n mod 10)])"
  by pat_completeness auto
termination
  by (relation "measure id") auto

declare nat_digits.simps [simp del]

text \<open>Brings \<open>x > 0\<close> into \<open>[1, 10)\<close>; \<open>n\<close> counts the decimal places moved.\<close>

fun scale_search :: "nat \<Rightarrow> real \<Rightarrow> int \<Rightarrow> real \<times> int" where
  "scale_search fuel x n =
     (if fuel = 0 then (x, n)
      else if x \<ge> 10 then scale_search (fuel - 1) (x / 10) (n + 1)
      else if x < 1 then scale_search (fuel - 1) (x * 10) (n - 1)
      else (x, n))"

declare scale_search.simps [simp del]

text \<open>The first \<open>b\<close> digits of \<open>m\<close> in \<open>[1, 10)\<close>, fewer when nothing is left.\<close>

fun sig_digits :: "nat \<Rightarrow> real \<Rightarrow> nat list" where
  "sig_digits b m =
     (if b = 0 then []
      else nat \<lfloor>m\<rfloor> #
        (if m - of_int \<lfloor>m\<rfloor> = 0 then [] else sig_digits (b - 1) ((m - of_int \<lfloor>m\<rfloor>) * 10)))"

declare sig_digits.simps [simp del]

definition positive_toString :: "real \<Rightarrow> string" where
  "positive_toString x =
     (let (m, n) = scale_search 400 x 1;
          ds = map digit_char (rev (dropWhile (\<lambda>d. d = 0) (rev (sig_digits 17 m))));
          k = int (length ds)
      in if k \<le> n \<and> n \<le> 21 then ds @ replicate (nat (n - k)) (CHR ''0'')
         else if 0 < n \<and> n \<le> 21 then take (nat n) ds @ ''.'' @ drop (nat n) ds
         else if - 6 < n \<and> n \<le> 0 then ''0.'' @ replicate (nat (- n)) (CHR ''0'') @ ds
         else (if k = 1 then ds else take 1 ds @ ''.'' @ drop 1 ds)
                @ ''e'' @ (if n - 1 < 0 then ''-'' else ''+'') @ nat_digits (nat \<bar>n - 1\<bar>))"

fun Number_toString :: "jsnum \<Rightarrow> string" where
  "Number_toString NaN = ''NaN''"
| "Number_toString PInf = ''Infinity''"
| "Number_toString NInf = ''-Infinity''"
| "Number_toString (Fin x) =
     (if x = 0 then ''0''
      else if x < 0 then ''-'' @ positive_toString (- x)
      else positive_toString x)"

text \<open>\<open>str.replace(/c/g, r)\<close> for a single character \<open>c\<close>.\<close>

definition replace_char :: "char \<Rightarrow> string \<Rightarrow> string \<Rightarrow> string" where
  "replace_char c r str = concat (map (\<lambda>x. if x = c then r else [x]) str)"

definition escapeXml :: "string \<Rightarrow> string" where
  "escapeXml str =
     replace_char (CHR 0x27) ''&apos;''
       (replace_char (CHR 0x22) ''&quot;''
         (replace_char (CHR ''>'') ''&gt;''
           (replace_char (CHR ''<'') ''&lt;''
             (replace_char (CHR ''&'') ''&amp;'' str))))"

text \<open>The body of the \<^verbatim>\<open>forEach\<close> of \<^verbatim>\<open>generateGPX\<close>: what one point appends.\<close>

definition append_point :: "string \<Rightarrow> GPXTrackPoint \<Rightarrow> string" where
  "append_point gpx point =
     (let gpx = gpx @ ''      <trkpt lat=\"'' @ Number_toString (lat point)
                  @ ''\" lon=\"'' @ Number_toString (lon point) @ ''\">'';
          gpx = (case ele point of
                   None \<Rightarrow> gpx
                 | Some e \<Rightarrow> gpx @ ''\<newline>        <ele>'' @ Number_toString e @ ''</ele>'');
          gpx = (case time point of
                   None \<Rightarrow> gpx
                 | Some t \<Rightarrow> if t \<noteq> [] then gpx @ ''\<newline>        <time>'' @ t @ ''</time>'' else gpx)
      in gpx @ ''\<newline>      </trkpt>\<newline>'')"

text \<open>
  \<^verbatim>\<open>generateGPX\<close>; \<open>now\<close> is what \<^verbatim>\<open>new Date().toISOString()\<close> returns when the
  function runs.
\<close>

definition generateGPX :: "string \<Rightarrow> GPXData \<Rightarrow> string \<Rightarrow> string" where
  "generateGPX now gpxData title =
     (let gpx = ''<?xml version=\"1.0\" encoding=\"UTF-8\"?>\<newline>''
                @ ''<gpx version=\"1.1\" creator=\"ADV Moto Hub\" xmlns=\"http://www.topografix.com/GPX/1/1\">\<newline>''
                @ ''  <metadata>\<newline>''
                @ ''    <name>'' @ escapeXml title @ ''</name>\<newline>''
                @ ''    <time>'' @ now @ ''</time>\<newline>''
                @ ''  </metadata>\<newline>''
                @ ''  <trk>\<newline>''
                @ ''    <name>'' @ escapeXml title @ ''</name>\<newline>''
                @ ''    <trkseg>\<newline>'';
          gpx = foldl append_point gpx (points gpxData)
      in gpx @ ''    </trkseg>\<newline>  </trk>\<newline></gpx>'')"

section \<open>Notions used to state the properties\<close>

text \<open>The value of a finite number.\<close>


fun fin_val :: "jsnum \<Rightarrow> real" where
  "fin_val (Fin x) = x"
| "fin_val _ = 0"

text \<open>The elevations of the points that have one, in order.\<close>

definition known_elevations :: "GPXTrackPoint list \<Rightarrow> jsnum list" where
  "known_elevations pts = concat (map (\<lambda>p. case ele p of None \<Rightarrow> [] | Some e \<Rightarrow> [e]) pts)"

text \<open>
  The positive steps and the absolute negative steps along a sequence of elevations,
  each step taken between neighbours.
\<close>

fun climb :: "real list \<Rightarrow> real" where
  "climb (a # b # r) = (if b - a > 0 then b - a else 0) + climb (b # r)"
| "climb _ = 0"

fun descent :: "real list \<Rightarrow> real" where
  "descent (a # b # r) = (if b - a > 0 then 0 else \<bar>b - a\<bar>) + descent (b # r)"
| "descent _ = 0"

definition finite_elevations :: "GPXTrackPoint list \<Rightarrow> bool" where
  "finite_elevations pts = list_all isFinite (known_elevations pts)"

text \<open>Points for examples: at the origin, with and without an elevation.\<close>

definition pt_ele :: "real \<Rightarrow> GPXTrackPoint" where
  "pt_ele e = \<lparr>lat = Fin 0, lon = Fin 0, ele = Some (Fin e), time = None\<rparr>"

definition pt_unknown :: GPXTrackPoint where
  "pt_unknown = \<lparr>lat = Fin 0, lon = Fin 0, ele = None, time = None\<rparr>"

text \<open>Example documents.\<close>

definition trkpt :: "string \<Rightarrow> string \<Rightarrow> xml_node list \<Rightarrow> xml_node" where
  "trkpt la lo cs = Element ''trkpt'' [(''lat'', la), (''lon'', lo)] cs"

definition doc_two_points :: xml_node where
  "doc_two_points = Element ''gpx'' [] [Element ''trk'' [] [Element ''trkseg'' []
     [trkpt ''39.9'' ''116.4'' [], trkpt ''40.0'' ''116.5'' []]]]"

definition doc_one_point :: xml_node where
  "doc_one_point = Element ''gpx'' [] [trkpt ''39.9'' ''116.4'' []]"

definition doc_no_points :: xml_node where
  "doc_no_points = Element ''gpx'' [] [Element ''metadata'' [] [Element ''name'' [] [Text ''empty'']]]"

definition doc_with_parsererror :: xml_node where
  "doc_with_parsererror = Element ''gpx'' []
     [Element ''parsererror'' [] [], trkpt ''39.9'' ''116.4'' [], trkpt ''40.0'' ''116.5'' []]"

definition tier_elements :: "document \<Rightarrow> xml_node list" where
  "tier_elements xmlDoc =
     doc_getElementsByTagName xmlDoc ''trkpt'' @ doc_getElementsByTagName xmlDoc ''rtept''
       @ doc_getElementsByTagName xmlDoc ''wpt''"

definition complete :: "GPXData \<Rightarrow> bool" where
  "complete g = (calculateStats (points g) =
     Inr \<lparr>st_distance = distance g, st_elevationGain = elevationGain g,
          st_elevationLoss = elevationLoss g, st_estimatedTime = estimatedTime g\<rparr>)"

text \<open>The coordinate check of the loop: neither coordinate, read as the source reads it, is \<open>NaN\<close>.\<close>

definition coords_ok :: "xml_node \<Rightarrow> bool" where
  "coords_ok e =
     (\<not> isNaN (parseFloat (str_or (getAttribute e ''lat'') ''0''))
      \<and> \<not> isNaN (parseFloat (str_or (getAttribute e ''lon'') ''0'')))"

text \<open>An attribute that is present and parses to a finite number.\<close>

definition attr_finite :: "xml_node \<Rightarrow> string \<Rightarrow> bool" where
  "attr_finite e n = (case getAttribute e n of None \<Rightarrow> False | Some v \<Rightarrow> isFinite (parseFloat v))"

definition both_attrs_finite :: "xml_node \<Rightarrow> bool" where
  "both_attrs_finite e = (attr_finite e ''lat'' \<and> attr_finite e ''lon'')"

definition doc_missing_lat :: xml_node where
  "doc_missing_lat = Element ''gpx'' []
     [Element ''trkpt'' [(''lon'', ''116.3'')] [], trkpt ''39.9'' ''116.4'' [], trkpt ''40.0'' ''116.5'' []]"

definition doc_nan_lat :: xml_node where
  "doc_nan_lat = Element ''gpx'' []
     [trkpt ''north'' ''116.3'' [], trkpt ''39.9'' ''116.4'' [], trkpt ''40.0'' ''116.5'' []]"

definition doc_first_unknown :: xml_node where
  "doc_first_unknown = Element ''gpx'' []
     [trkpt ''39.9'' ''116.4'' [],
      trkpt ''40.0'' ''116.5'' [Element ''ele'' [] [Text ''1000'']],
      trkpt ''40.1'' ''116.6'' [Element ''ele'' [] [Text ''1000'']]]"

definition doc_bad_ele :: xml_node where
  "doc_bad_ele = Element ''gpx'' []
     [trkpt ''39.9'' ''116.4'' [Element ''ele'' [] [Text ''100'']],
      trkpt ''40.0'' ''116.5'' [Element ''ele'' [] [Text ''abc'']]]"

text \<open>The same document with every element named \<open>a\<close> renamed to \<open>b\<close>.\<close>

fun retag :: "string \<Rightarrow> string \<Rightarrow> xml_node \<Rightarrow> xml_node" where
  "retag a b (Text s) = Text s"
| "retag a b (Element t as cs) = Element (if t = a then b else t) as (map (retag a b) cs)"

text \<open>The tag names that occur in a tree.\<close>

fun tags :: "xml_node \<Rightarrow> string set" where
  "tags (Text s) = {}"
| "tags (Element t as cs) = insert t (\<Union>c \<in> set cs. tags c)"

definition rtept :: "string \<Rightarrow> string \<Rightarrow> xml_node list \<Rightarrow> xml_node" where
  "rtept la lo cs = Element ''rtept'' [(''lat'', la), (''lon'', lo)] cs"

definition wpt :: "string \<Rightarrow> string \<Rightarrow> xml_node list \<Rightarrow> xml_node" where
  "wpt la lo cs = Element ''wpt'' [(''lat'', la), (''lon'', lo)] cs"



definition pt_at :: "real \<Rightarrow> real \<Rightarrow> GPXTrackPoint" where
  "pt_at la lo = \<lparr>lat = Fin la, lon = Fin lo, ele = None, time = None\<rparr>"


text \<open>A document whose first point has a time with an ampersand, written \<^verbatim>\<open>a&amp;b\<close>.\<close>

definition doc_amp_time :: xml_node where
  "doc_amp_time = Element ''gpx'' []
     [trkpt ''1'' ''2'' [Element ''time'' [] [Text ''a&b'']], trkpt ''3'' ''4'' []]"

definition track_two :: GPXData where
  "track_two = \<lparr>name = None, points = [pt_at 1 2, pt_at 3 4], distance = Fin 0,
     elevationGain = Fin 0, elevationLoss = Fin 0, estimatedTime = Fin 0\<rparr>"

section \<open>Elevation gain and loss\<close>

lemma known_elevations_simps [simp]:
  "known_elevations [] = []"
  "known_elevations (p # ps) = (case ele p of None \<Rightarrow> [] | Some e \<Rightarrow> [e]) @ known_elevations ps"
  by (simp_all add: known_elevations_def)

lemma finite_elevations_simps [simp]:
  "finite_elevations [] = True"
  "finite_elevations (p # ps) = ((case ele p of None \<Rightarrow> True | Some e \<Rightarrow> isFinite e) \<and> finite_elevations ps)"
  by (simp_all add: finite_elevations_def split: option.splits)

lemma stats_step_unknown:
  assumes "ele cur = None"
  shows "gain (stats_step prev cur s) = gain s"
    and "loss (stats_step prev cur s) = loss s"
    and "lastEle (stats_step prev cur s) = lastEle s"
  using assms by (simp_all add: stats_step_def Let_def)

lemma stats_step_known:
  assumes "ele cur = Some (Fin e)" and "lastEle s = Fin r" and "gain s = Fin g" and "loss s = Fin l"
  shows "gain (stats_step prev cur s) = Fin (g + (if e - r > 0 then e - r else 0))"
    and "loss (stats_step prev cur s) = Fin (l + (if e - r > 0 then 0 else \<bar>e - r\<bar>))"
    and "lastEle (stats_step prev cur s) = Fin e"
  using assms by (simp_all add: stats_step_def Let_def js_sub_def)

lemma stats_loop_elevation:
  assumes "finite_elevations rest" and "lastEle s = Fin r" and "gain s = Fin g" and "loss s = Fin l"
  shows "gain (stats_loop prev rest s) = Fin (g + climb (r # map fin_val (known_elevations rest)))
       \<and> loss (stats_loop prev rest s) = Fin (l + descent (r # map fin_val (known_elevations rest)))
       \<and> lastEle (stats_loop prev rest s) = Fin (last (r # map fin_val (known_elevations rest)))"
  using assms
proof (induction rest arbitrary: prev s r g l)
  case Nil
  then show ?case by simp
next
  case (Cons cur rest)
  show ?case
  proof (cases "ele cur")
    case None
    with Cons.prems have "finite_elevations rest" by simp
    from Cons.IH [OF this, of "stats_step prev cur s" r g l] Cons.prems None
    show ?thesis by (simp add: stats_step_unknown)
  next
    case (Some a)
    with Cons.prems obtain e where a: "a = Fin e" by (cases a) simp_all
    from Cons.prems Some have fin: "finite_elevations rest" by simp
    note st = stats_step_known [OF Some [unfolded a] Cons.prems(2,3,4), of prev]
    from Cons.IH [OF fin st(3) st(1) st(2)] Some a
    show ?thesis by (simp add: algebra_simps)
  qed
qed



lemma stats_loop_append:
  "stats_loop prev (xs @ ys) s = stats_loop (last (prev # xs)) ys (stats_loop prev xs s)"
  by (induction xs arbitrary: prev s) simp_all




lemma calculateStats_elevation:
  assumes "finite_elevations (p0 # rest)"
  shows "\<exists>st. calculateStats (p0 # rest) = Inr st
     \<and> st_elevationGain st =
         Math_round (Fin (climb (fin_val (or_zero (ele p0)) # map fin_val (known_elevations rest))))
     \<and> st_elevationLoss st =
         Math_round (Fin (descent (fin_val (or_zero (ele p0)) # map fin_val (known_elevations rest))))"
proof -
  let ?s0 = "\<lparr>totalDistance = Fin 0, gain = Fin 0, loss = Fin 0, lastEle = or_zero (ele p0)\<rparr>"
  from assms have fin: "finite_elevations rest" by simp
  have "\<exists>r. or_zero (ele p0) = Fin r"
  proof (cases "ele p0")
    case None
    then show ?thesis by simp
  next
    case (Some a)
    with assms show ?thesis by (cases a) simp_all
  qed
  then obtain r where r: "or_zero (ele p0) = Fin r" ..
  have s0: "lastEle ?s0 = Fin r" "gain ?s0 = Fin 0" "loss ?s0 = Fin 0"
    using r by simp_all
  from stats_loop_elevation [OF fin s0, of p0] r
  show ?thesis by (simp add: calculateStats_def Let_def)
qed

text \<open>
  What the loop makes of the elevations: gain is the sum of the positive steps and loss
  the sum of the absolute negative steps, each taken from the reference to the next known
  elevation. The reference is the last known elevation before, a point without elevation
  leaves it alone, and it starts as \<^verbatim>\<open>points[0].ele || 0\<close>. Elevations
  \<open>50, 55, 60, 58\<close> give gain 10 and loss 2.
\<close>

lemma elevation_gain_loss:
  "(finite_elevations (p0 # rest) \<longrightarrow>
      (\<exists>st. calculateStats (p0 # rest) = Inr st
         \<and> st_elevationGain st =
             Math_round (Fin (climb (fin_val (or_zero (ele p0)) # map fin_val (known_elevations rest))))
         \<and> st_elevationLoss st =
             Math_round (Fin (descent (fin_val (or_zero (ele p0)) # map fin_val (known_elevations rest))))))
   \<and> (map ele pts = [Some (Fin 50), Some (Fin 55), Some (Fin 60), Some (Fin 58)] \<longrightarrow>
        (\<exists>st. calculateStats pts = Inr st \<and> st_elevationGain st = Fin 10 \<and> st_elevationLoss st = Fin 2))"
proof (intro conjI impI)
  assume "finite_elevations (p0 # rest)"
  then show "\<exists>st. calculateStats (p0 # rest) = Inr st
         \<and> st_elevationGain st =
             Math_round (Fin (climb (fin_val (or_zero (ele p0)) # map fin_val (known_elevations rest))))
         \<and> st_elevationLoss st =
             Math_round (Fin (descent (fin_val (or_zero (ele p0)) # map fin_val (known_elevations rest))))"
    by (rule calculateStats_elevation)
next
  assume m: "map ele pts = [Some (Fin 50), Some (Fin 55), Some (Fin 60), Some (Fin 58)]"
  then obtain a b c d where pts: "pts = [a, b, c, d]"
    and e: "ele a = Some (Fin 50)" "ele b = Some (Fin 55)" "ele c = Some (Fin 60)" "ele d = Some (Fin 58)"
    by auto
  have "finite_elevations (a # [b, c, d])" using e by simp
  from calculateStats_elevation [OF this] e
  show "\<exists>st. calculateStats pts = Inr st \<and> st_elevationGain st = Fin 10 \<and> st_elevationLoss st = Fin 2"
    unfolding pts by simp
qed

lemma elevation_gain_loss_example:
  "finite_elevations [pt_unknown, pt_ele 1000, pt_unknown, pt_ele 990]
   \<and> map_sum id st_elevationGain (calculateStats [pt_unknown, pt_ele 1000, pt_unknown, pt_ele 990]) = Inr (Fin 1000)
   \<and> map_sum id st_elevationLoss (calculateStats [pt_unknown, pt_ele 1000, pt_unknown, pt_ele 990]) = Inr (Fin 10)
   \<and> map_sum id st_elevationGain (calculateStats [pt_ele 50, pt_ele 55, pt_ele 60, pt_ele 58]) = Inr (Fin 10)
   \<and> map_sum id st_elevationLoss (calculateStats [pt_ele 50, pt_ele 55, pt_ele 60, pt_ele 58]) = Inr (Fin 2)"
  using elevation_gain_loss [of pt_unknown "[pt_ele 1000, pt_unknown, pt_ele 990]" "[pt_ele 50, pt_ele 55, pt_ele 60, pt_ele 58]"]
  by (auto simp add: pt_ele_def pt_unknown_def)

section \<open>The outcomes of \<open>parse\<close>\<close>

lemmas eval_parseFloat = parseFloat_def unsigned_literal_def is_space_def is_digit_def
  digits_val_def digit_val_def exponent_part_def scale10_def

lemma calculateStats_total: "pts \<noteq> [] \<Longrightarrow> \<exists>st. calculateStats pts = Inr st"
  by (cases pts) (simp_all add: calculateStats_def Let_def)

lemma select_trackPoints_empty:
  "select_trackPoints d = [] \<longleftrightarrow> tier_elements d = []"
  by (auto simp add: select_trackPoints_def tier_elements_def Let_def)

lemma parse_malformed:
  assumes "doc_getElementsByTagName (parseFromString src) ''parsererror'' \<noteq> []"
  shows "parse src = Inl MalformedDocument"
  using assms by (simp add: parse_def Let_def)

lemma parse_no_track:
  assumes "doc_getElementsByTagName (parseFromString src) ''parsererror'' = []"
    and "tier_elements (parseFromString src) = []"
  shows "parse src = Inl NoTrackData"
  using assms by (simp add: parse_def Let_def select_trackPoints_empty)

lemma parse_insufficient:
  assumes "doc_getElementsByTagName (parseFromString src) ''parsererror'' = []"
    and "tier_elements (parseFromString src) \<noteq> []"
    and "length (collect_points (select_trackPoints (parseFromString src))) < 2"
  shows "parse src = Inl InsufficientPoints"
  using assms by (simp add: parse_def Let_def select_trackPoints_empty)

lemma parse_Inr:
  assumes "parse src = Inr g"
  shows "points g = collect_points (select_trackPoints (parseFromString src))"
    and "2 \<le> length (points g)" and "complete g"
  using assms
  by (auto simp add: parse_def Let_def complete_def split: if_splits sum.splits)

lemma parse_ok:
  assumes "doc_getElementsByTagName (parseFromString src) ''parsererror'' = []"
    and "tier_elements (parseFromString src) \<noteq> []"
    and "2 \<le> length (collect_points (select_trackPoints (parseFromString src)))"
  shows "\<exists>g. parse src = Inr g \<and> 2 \<le> length (points g) \<and> complete g"
proof -
  let ?pts = "collect_points (select_trackPoints (parseFromString src))"
  from assms(3) have "?pts \<noteq> []" by auto
  then obtain st where "calculateStats ?pts = Inr st"
    using calculateStats_total by blast
  with assms have "\<exists>g. parse src = Inr g"
    by (simp add: parse_def Let_def select_trackPoints_empty)
  then obtain g where g: "parse src = Inr g" ..
  from parse_Inr [OF g] g show ?thesis by blast
qed

text \<open>
  C1, amended: \<^verbatim>\<open>parse\<close> returns a complete track of at least two points or fails
  with exactly one of three errors, and nothing else: \<open>MalformedDocument\<close> when the document
  \<^verbatim>\<open>DOMParser\<close> returns holds a \<^verbatim>\<open>parsererror\<close> element, as it does for every text
  that is not well-formed; \<open>NoTrackData\<close> when there is no such element and no point
  element of any tier; \<open>InsufficientPoints\<close> when point elements exist and fewer than two
  points come out of the selected tier.
\<close>

theorem parse_outcomes:
  "(parse src = Inl MalformedDocument
      \<longleftrightarrow> doc_getElementsByTagName (parseFromString src) ''parsererror'' \<noteq> [])
   \<and> (parse src = Inl NoTrackData
      \<longleftrightarrow> doc_getElementsByTagName (parseFromString src) ''parsererror'' = []
          \<and> tier_elements (parseFromString src) = [])
   \<and> (parse src = Inl InsufficientPoints
      \<longleftrightarrow> doc_getElementsByTagName (parseFromString src) ''parsererror'' = []
          \<and> tier_elements (parseFromString src) \<noteq> []
          \<and> length (collect_points (select_trackPoints (parseFromString src))) < 2)
   \<and> ((\<exists>g. parse src = Inr g \<and> 2 \<le> length (points g) \<and> complete g)
      \<longleftrightarrow> doc_getElementsByTagName (parseFromString src) ''parsererror'' = []
          \<and> tier_elements (parseFromString src) \<noteq> []
          \<and> 2 \<le> length (collect_points (select_trackPoints (parseFromString src))))
   \<and> (parse src = Inl MalformedDocument \<or> parse src = Inl NoTrackData
        \<or> parse src = Inl InsufficientPoints
        \<or> (\<exists>g. parse src = Inr g \<and> 2 \<le> length (points g) \<and> complete g))
   \<and> parse NotWellFormed = Inl MalformedDocument"
proof -
  have nwf: "parse NotWellFormed = Inl MalformedDocument"
    by (simp add: parse_def)
  consider
      (m) "doc_getElementsByTagName (parseFromString src) ''parsererror'' \<noteq> []"
    | (n) "doc_getElementsByTagName (parseFromString src) ''parsererror'' = []"
          "tier_elements (parseFromString src) = []"
    | (i) "doc_getElementsByTagName (parseFromString src) ''parsererror'' = []"
          "tier_elements (parseFromString src) \<noteq> []"
          "length (collect_points (select_trackPoints (parseFromString src))) < 2"
    | (k) "doc_getElementsByTagName (parseFromString src) ''parsererror'' = []"
          "tier_elements (parseFromString src) \<noteq> []"
          "2 \<le> length (collect_points (select_trackPoints (parseFromString src)))"
    by linarith
  then show ?thesis
  proof cases
    case m
    from parse_malformed [OF m] m nwf show ?thesis by simp
  next
    case n
    from parse_no_track [OF n] n nwf show ?thesis by simp
  next
    case i
    from parse_insufficient [OF i] i nwf show ?thesis by simp
  next
    case k
    from parse_ok [OF k] obtain g where g: "parse src = Inr g" "2 \<le> length (points g)" "complete g"
      by blast
    have "\<exists>g. parse src = Inr g \<and> 2 \<le> length (points g) \<and> complete g"
      using g by blast
    with g(1) k nwf show ?thesis by simp
  qed
qed

theorem parse_outcomes_witness:
  "parse NotWellFormed = Inl MalformedDocument
   \<and> parse (WellFormed doc_no_points) = Inl NoTrackData
   \<and> parse (WellFormed doc_one_point) = Inl InsufficientPoints
   \<and> (\<exists>g. parse (WellFormed doc_two_points) = Inr g \<and> 2 \<le> length (points g) \<and> complete g)"
proof -
  have a: "doc_getElementsByTagName (parseFromString (WellFormed doc_no_points)) ''parsererror'' = []
      \<and> tier_elements (parseFromString (WellFormed doc_no_points)) = []"
    by (simp add: doc_no_points_def tier_elements_def)
  have b: "doc_getElementsByTagName (parseFromString (WellFormed doc_one_point)) ''parsererror'' = []
      \<and> tier_elements (parseFromString (WellFormed doc_one_point)) \<noteq> []
      \<and> length (collect_points (select_trackPoints (parseFromString (WellFormed doc_one_point)))) < 2"
    by (simp add: doc_one_point_def tier_elements_def trkpt_def select_trackPoints_def point_of_def Let_def
          getElementsByTagName_def eval_parseFloat)
  have c: "doc_getElementsByTagName (parseFromString (WellFormed doc_two_points)) ''parsererror'' = []
      \<and> tier_elements (parseFromString (WellFormed doc_two_points)) \<noteq> []
      \<and> 2 \<le> length (collect_points (select_trackPoints (parseFromString (WellFormed doc_two_points))))"
    by (simp add: doc_two_points_def tier_elements_def trkpt_def select_trackPoints_def point_of_def Let_def
          getElementsByTagName_def eval_parseFloat)
  from a b c parse_outcomes [of NotWellFormed] parse_outcomes [of "WellFormed doc_no_points"]
    parse_outcomes [of "WellFormed doc_one_point"] parse_outcomes [of "WellFormed doc_two_points"]
  show ?thesis by blast
qed

theorem parsererror_element_counterexample:
  "parse (WellFormed doc_with_parsererror) = Inl MalformedDocument
   \<and> length (collect_points (select_trackPoints (Document doc_with_parsererror))) = 2"
  by (simp add: doc_with_parsererror_def parse_def trkpt_def select_trackPoints_def point_of_def Let_def
        getElementsByTagName_def eval_parseFloat)

section \<open>Per-point extraction\<close>

lemma point_of_coords_ok: "point_of e \<noteq> None \<longleftrightarrow> coords_ok e"
  by (simp add: point_of_def coords_ok_def Let_def)

lemma collect_points_filter: "collect_points es = collect_points (filter coords_ok es)"
  by (induction es) (auto simp add: point_of_coords_ok [symmetric] split: option.splits)

lemma length_collect_points: "length (collect_points es) = length (filter coords_ok es)"
  by (induction es) (auto simp add: point_of_coords_ok [symmetric] split: option.splits)

lemma parseFloat_Nil: "parseFloat [] = NaN"
  by (simp add: parseFloat_def)

lemma both_attrs_finite_coords_ok: "both_attrs_finite e \<Longrightarrow> coords_ok e"
proof -
  have "\<not> isNaN (parseFloat (str_or (getAttribute e n) ''0''))" if "attr_finite e n" for n
  proof (cases "getAttribute e n")
    case None
    with that show ?thesis by (simp add: attr_finite_def)
  next
    case (Some v)
    with that have f: "isFinite (parseFloat v)" by (simp add: attr_finite_def)
    then have "v \<noteq> []" by (auto simp add: parseFloat_Nil)
    then have "str_or (Some v) ''0'' = v" by (cases v) simp_all
    with f Some show ?thesis by (cases "parseFloat v") simp_all
  qed
  then show "both_attrs_finite e \<Longrightarrow> coords_ok e"
    by (simp add: both_attrs_finite_def coords_ok_def)
qed

text \<open>
  C2, amended: a point element is left out, without an error, exactly when its latitude or
  its longitude parses to \<open>NaN\<close>, an absent or empty attribute being read as
  \<^verbatim>\<open>'0'\<close>; the number of points returned is the number of elements of the selected
  tier that pass this check, and every element whose two attributes are present and
  finite passes it.
\<close>

theorem point_count:
  "collect_points es = collect_points (filter coords_ok es)
   \<and> (parse src = Inr g \<longrightarrow>
        length (points g) = length (filter coords_ok (select_trackPoints (parseFromString src))))
   \<and> (both_attrs_finite e \<longrightarrow> coords_ok e)"
proof (intro conjI impI)
  show "collect_points es = collect_points (filter coords_ok es)"
    by (rule collect_points_filter)
next
  assume "parse src = Inr g"
  then have "points g = collect_points (select_trackPoints (parseFromString src))"
    by (rule parse_Inr)
  then show "length (points g) = length (filter coords_ok (select_trackPoints (parseFromString src)))"
    by (simp add: length_collect_points)
next
  assume "both_attrs_finite e"
  then show "coords_ok e" by (rule both_attrs_finite_coords_ok)
qed

lemmas eval_parse = parse_def trkpt_def select_trackPoints_def point_of_def Let_def
  getElementsByTagName_def eval_parseFloat

lemma parse_doc_nan_lat:
  "\<exists>g. parse (WellFormed doc_nan_lat) = Inr g \<and> length (points g) = 2"
proof -
  have "doc_getElementsByTagName (parseFromString (WellFormed doc_nan_lat)) ''parsererror'' = []
      \<and> tier_elements (parseFromString (WellFormed doc_nan_lat)) \<noteq> []
      \<and> 2 \<le> length (collect_points (select_trackPoints (parseFromString (WellFormed doc_nan_lat))))"
    by (simp add: doc_nan_lat_def tier_elements_def eval_parse)
  then obtain g where g: "parse (WellFormed doc_nan_lat) = Inr g"
    using parse_ok by blast
  from parse_Inr(1) [OF g] have "length (points g) = 2"
    by (simp add: doc_nan_lat_def eval_parse)
  with g show ?thesis by blast
qed

theorem point_count_witness:
  "\<exists>g. parse (WellFormed doc_nan_lat) = Inr g \<and> length (points g) = 2
     \<and> length (select_trackPoints (Document doc_nan_lat)) = 3
     \<and> both_attrs_finite (trkpt ''39.9'' ''116.4'' []) \<and> coords_ok (trkpt ''39.9'' ''116.4'' [])"
proof -
  obtain g where g: "parse (WellFormed doc_nan_lat) = Inr g" "length (points g) = 2"
    using parse_doc_nan_lat by blast
  have b: "both_attrs_finite (trkpt ''39.9'' ''116.4'' [])"
    by (simp add: both_attrs_finite_def attr_finite_def trkpt_def eval_parseFloat)
  have l: "length (select_trackPoints (Document doc_nan_lat)) = 3"
    by (simp add: doc_nan_lat_def eval_parse)
  from point_count [of "[]" "WellFormed doc_nan_lat" g "trkpt ''39.9'' ''116.4'' []"] g b l
  show ?thesis by auto
qed

theorem absent_latitude_counterexample:
  "map_sum id (map lat \<circ> points) (parse (WellFormed doc_missing_lat)) = Inr [Fin 0, Fin (399 / 10), Fin 40]
   \<and> length (filter both_attrs_finite (select_trackPoints (Document doc_missing_lat))) = 2"
  by (simp add: doc_missing_lat_def both_attrs_finite_def attr_finite_def eval_parse calculateStats_def)

section \<open>Elevations read from a document\<close>

text \<open>
  C8: an elevation is attached exactly when the point has an \<^verbatim>\<open>ele\<close> child with numeric
  text. The source attaches whatever \<^verbatim>\<open>parseFloat\<close> makes of a text that is not empty:
  for the text \<^verbatim>\<open>abc\<close> the point gets the elevation \<open>NaN\<close>, and the elevation loss of the
  track is \<open>NaN\<close> too.
\<close>

theorem non_numeric_elevation:
  "map_sum id (map ele \<circ> points) (parse (WellFormed doc_bad_ele)) = Inr [Some (Fin 100), Some NaN]
   \<and> map_sum id elevationLoss (parse (WellFormed doc_bad_ele)) = Inr NaN"
  by (simp add: doc_bad_ele_def eval_parse calculateStats_def stats_step_def js_sub_def)

text \<open>
  C3: gain and loss are taken only between a point with known elevation and the last point
  before it that had one. The source starts the reference at 0 when the first point has
  no elevation: for a track whose known elevations are 1000 and 1000 after a first point
  without elevation, the gain is 1000.
\<close>

theorem first_elevation_unknown:
  "map_sum id (map ele \<circ> points) (parse (WellFormed doc_first_unknown))
     = Inr [None, Some (Fin 1000), Some (Fin 1000)]
   \<and> map_sum id elevationGain (parse (WellFormed doc_first_unknown)) = Inr (Fin 1000)
   \<and> map_sum id elevationLoss (parse (WellFormed doc_first_unknown)) = Inr (Fin 0)"
  by (simp add: doc_first_unknown_def eval_parse calculateStats_def stats_step_def js_sub_def)

section \<open>Tier selection\<close>

lemma descendants_retag: "descendants (retag a b t) = map (retag a b) (descendants t)"
proof (induction t)
  case (Element t as cs)
  show ?case by (simp add: map_concat comp_def Element.IH cong: map_cong)
next
  case (Text s)
  show ?case by simp
qed

lemma tags_descendants: "x \<in> set (descendants t) \<Longrightarrow> tags x \<subseteq> tags t"
proof (induction t arbitrary: x)
  case (Element t as cs)
  from Element.prems obtain c where c: "c \<in> set cs" and x: "x = c \<or> x \<in> set (descendants c)"
    by auto
  from x have "tags x \<subseteq> tags c"
  proof
    assume "x = c" then show ?thesis by simp
  next
    assume "x \<in> set (descendants c)"
    with c show ?thesis by (rule Element.IH)
  qed
  with c show ?case by auto
next
  case (Text s)
  then show ?case by simp
qed

lemma textContent_retag: "textContent (retag a b t) = textContent t"
proof (induction t)
  case (Element t as cs)
  show ?case by (simp add: comp_def Element.IH cong: map_cong)
next
  case (Text s)
  show ?case by simp
qed

lemma getAttribute_retag: "getAttribute (retag a b t) n = getAttribute t n"
  by (cases t) simp_all

lemma is_named_retag_other: "n \<noteq> a \<Longrightarrow> n \<noteq> b \<Longrightarrow> is_named n (retag a b x) = is_named n x"
  by (cases x) auto

lemma is_named_retag_new: "b \<notin> tags x \<Longrightarrow> is_named b (retag a b x) = is_named a x"
  by (cases x) auto

lemma is_named_retag_old: "a \<noteq> b \<Longrightarrow> \<not> is_named a (retag a b x)"
  by (cases x) auto

lemma filter_retag_other:
  assumes "n \<noteq> a" and "n \<noteq> b"
  shows "filter (is_named n) (map (retag a b) xs) = map (retag a b) (filter (is_named n) xs)"
  using assms by (induction xs) (simp_all add: is_named_retag_other)

lemma filter_retag_new:
  assumes "\<forall>x \<in> set xs. b \<notin> tags x"
  shows "filter (is_named b) (map (retag a b) xs) = map (retag a b) (filter (is_named a) xs)"
  using assms by (induction xs) (simp_all add: is_named_retag_new)

lemma filter_retag_old:
  assumes "a \<noteq> b"
  shows "filter (is_named a) (map (retag a b) xs) = []"
  using assms by (induction xs) (simp_all add: is_named_retag_old)

lemma getElementsByTagName_retag:
  assumes "n \<noteq> a" and "n \<noteq> b"
  shows "getElementsByTagName (retag a b e) n = map (retag a b) (getElementsByTagName e n)"
  using assms by (simp add: getElementsByTagName_def descendants_retag filter_retag_other)

lemma doc_retag_other:
  assumes "n \<noteq> a" and "n \<noteq> b"
  shows "doc_getElementsByTagName (Document (retag a b t)) n
       = map (retag a b) (doc_getElementsByTagName (Document t) n)"
  using filter_retag_other [OF assms, of "t # descendants t"]
  by (simp add: descendants_retag)

lemma doc_retag_new:
  assumes "b \<notin> tags t"
  shows "doc_getElementsByTagName (Document (retag a b t)) b
       = map (retag a b) (doc_getElementsByTagName (Document t) a)"
proof -
  have "\<forall>x \<in> set (t # descendants t). b \<notin> tags x"
    using assms tags_descendants by fastforce
  from filter_retag_new [OF this, of a] show ?thesis
    by (simp add: descendants_retag)
qed

lemma doc_retag_old:
  assumes "a \<noteq> b"
  shows "doc_getElementsByTagName (Document (retag a b t)) a = []"
  using filter_retag_old [OF assms, of "t # descendants t"]
  by (simp add: descendants_retag)

lemma doc_absent:
  assumes "n \<notin> tags t"
  shows "doc_getElementsByTagName (Document t) n = []"
proof -
  have h: "\<not> is_named n x" if "x \<in> set (t # descendants t)" for x
  proof -
    from that assms tags_descendants have "n \<notin> tags x" by fastforce
    then show ?thesis by (cases x) auto
  qed
  show ?thesis
    unfolding doc_getElementsByTagName.simps filter_empty_conv using h by blast
qed


lemma first_map: "first (map f xs) = map_option f (first xs)"
  by (cases xs) simp_all

lemma point_of_retag:
  assumes "''ele'' \<noteq> a" "''ele'' \<noteq> b" "''time'' \<noteq> a" "''time'' \<noteq> b"
  shows "point_of (retag a b e) = point_of e"
proof -
  have f: "first (getElementsByTagName (retag a b e) n) = map_option (retag a b) (first (getElementsByTagName e n))"
    if "n \<noteq> a" "n \<noteq> b" for n
    using that by (simp add: getElementsByTagName_retag first_map)
  show ?thesis
    unfolding point_of_def getAttribute_retag f [OF assms(1,2)] f [OF assms(3,4)]
    by (simp add: textContent_retag Let_def split: option.splits)
qed

lemma collect_points_retag:
  assumes "''ele'' \<noteq> a" "''ele'' \<noteq> b" "''time'' \<noteq> a" "''time'' \<noteq> b"
  shows "collect_points (map (retag a b) es) = collect_points es"
  by (induction es) (simp_all add: point_of_retag [OF assms] split: option.splits)

lemma select_trackPoints_only_trkpt:
  assumes "''rtept'' \<notin> tags t" and "''wpt'' \<notin> tags t"
  shows "select_trackPoints (Document t) = doc_getElementsByTagName (Document t) ''trkpt''"
  using doc_absent [OF assms(1)] doc_absent [OF assms(2)]
  by (simp add: select_trackPoints_def Let_def)

lemma select_trackPoints_as_rtept:
  assumes "''rtept'' \<notin> tags t" and "''wpt'' \<notin> tags t"
  shows "select_trackPoints (Document (retag ''trkpt'' ''rtept'' t))
       = map (retag ''trkpt'' ''rtept'') (doc_getElementsByTagName (Document t) ''trkpt'')"
proof -
  have "doc_getElementsByTagName (Document (retag ''trkpt'' ''rtept'' t)) ''trkpt'' = []"
    by (rule doc_retag_old) simp
  moreover have "doc_getElementsByTagName (Document (retag ''trkpt'' ''rtept'' t)) ''rtept''
      = map (retag ''trkpt'' ''rtept'') (doc_getElementsByTagName (Document t) ''trkpt'')"
    using assms(1) by (rule doc_retag_new)
  moreover have "doc_getElementsByTagName (Document (retag ''trkpt'' ''rtept'' t)) ''wpt'' = []"
    using doc_retag_other [of "''wpt''" "''trkpt''" "''rtept''" t] doc_absent [OF assms(2)] by simp
  ultimately show ?thesis
    by (simp only: select_trackPoints_def Let_def) simp
qed

lemma select_trackPoints_as_wpt:
  assumes "''rtept'' \<notin> tags t" and "''wpt'' \<notin> tags t"
  shows "select_trackPoints (Document (retag ''trkpt'' ''wpt'' t))
       = map (retag ''trkpt'' ''wpt'') (doc_getElementsByTagName (Document t) ''trkpt'')"
proof -
  have "doc_getElementsByTagName (Document (retag ''trkpt'' ''wpt'' t)) ''trkpt'' = []"
    by (rule doc_retag_old) simp
  moreover have "doc_getElementsByTagName (Document (retag ''trkpt'' ''wpt'' t)) ''wpt''
      = map (retag ''trkpt'' ''wpt'') (doc_getElementsByTagName (Document t) ''trkpt'')"
    using assms(2) by (rule doc_retag_new)
  moreover have "doc_getElementsByTagName (Document (retag ''trkpt'' ''wpt'' t)) ''rtept'' = []"
    using doc_retag_other [of "''rtept''" "''trkpt''" "''wpt''" t] doc_absent [OF assms(1)] by simp
  ultimately show ?thesis
    by (simp only: select_trackPoints_def Let_def) simp
qed

text \<open>What \<^verbatim>\<open>parse\<close> reads of a document: the three lists of elements it asks for.\<close>

lemma parse_reads:
  "parse src =
     (if doc_getElementsByTagName (parseFromString src) ''parsererror'' \<noteq> [] then Inl MalformedDocument
      else if select_trackPoints (parseFromString src) = [] then Inl NoTrackData
      else if length (collect_points (select_trackPoints (parseFromString src))) < 2
        then Inl InsufficientPoints
      else case calculateStats (collect_points (select_trackPoints (parseFromString src))) of
             Inl e \<Rightarrow> Inl e
           | Inr stats \<Rightarrow>
               Inr \<lparr>name = (case map_option textContent
                                  (first (doc_getElementsByTagName (parseFromString src) ''name'')) of
                               None \<Rightarrow> None
                             | Some s \<Rightarrow> if s \<noteq> [] then Some s else None),
                    points = collect_points (select_trackPoints (parseFromString src)),
                    distance = st_distance stats,
                    elevationGain = st_elevationGain stats,
                    elevationLoss = st_elevationLoss stats,
                    estimatedTime = st_estimatedTime stats\<rparr>)"
  by (simp add: parse_def Let_def split: option.splits sum.splits)

lemma parse_cong:
  assumes "(doc_getElementsByTagName (parseFromString s1) ''parsererror'' = [])
         = (doc_getElementsByTagName (parseFromString s2) ''parsererror'' = [])"
    and "(select_trackPoints (parseFromString s1) = []) = (select_trackPoints (parseFromString s2) = [])"
    and "collect_points (select_trackPoints (parseFromString s1))
       = collect_points (select_trackPoints (parseFromString s2))"
    and "map_option textContent (first (doc_getElementsByTagName (parseFromString s1) ''name''))
       = map_option textContent (first (doc_getElementsByTagName (parseFromString s2) ''name''))"
  shows "parse s1 = parse s2"
  unfolding parse_reads [of s1] parse_reads [of s2] assms ..

lemma parse_retag:
  assumes "a \<noteq> b" and "\<forall>n \<in> {''parsererror'', ''name'', ''ele'', ''time''}. n \<noteq> a \<and> n \<noteq> b"
    and "select_trackPoints (Document (retag a b t)) = map (retag a b) (select_trackPoints (Document t))"
  shows "parse (WellFormed (retag a b t)) = parse (WellFormed t)"
proof (rule parse_cong)
  show "(doc_getElementsByTagName (parseFromString (WellFormed (retag a b t))) ''parsererror'' = [])
      = (doc_getElementsByTagName (parseFromString (WellFormed t)) ''parsererror'' = [])"
    using assms(2) doc_retag_other [of "''parsererror''" a b t] by simp
  show "(select_trackPoints (parseFromString (WellFormed (retag a b t))) = [])
      = (select_trackPoints (parseFromString (WellFormed t)) = [])"
    using assms(3) by simp
  show "collect_points (select_trackPoints (parseFromString (WellFormed (retag a b t))))
      = collect_points (select_trackPoints (parseFromString (WellFormed t)))"
    using assms(2,3) by (simp add: collect_points_retag)
  show "map_option textContent (first (doc_getElementsByTagName (parseFromString (WellFormed (retag a b t))) ''name''))
      = map_option textContent (first (doc_getElementsByTagName (parseFromString (WellFormed t)) ''name''))"
    using assms(2) doc_retag_other [of "''name''" a b t]
    by (simp add: first_map option.map_comp comp_def textContent_retag)
qed

text \<open>
  C5: the points come from exactly one tier, the first of \<^verbatim>\<open>trkpt\<close>, \<^verbatim>\<open>rtept\<close>,
  \<^verbatim>\<open>wpt\<close> that has an element, and the tiers are never merged; so a document whose
  points are all \<^verbatim>\<open>trkpt\<close> elements parses to the same result when they are written
  as \<^verbatim>\<open>rtept\<close> or as \<^verbatim>\<open>wpt\<close> elements instead.
\<close>

theorem tier_selection:
  "select_trackPoints d =
     (if doc_getElementsByTagName d ''trkpt'' \<noteq> [] then doc_getElementsByTagName d ''trkpt''
      else if doc_getElementsByTagName d ''rtept'' \<noteq> [] then doc_getElementsByTagName d ''rtept''
      else doc_getElementsByTagName d ''wpt'')
   \<and> (parse src = Inr g \<longrightarrow> points g = collect_points (select_trackPoints (parseFromString src)))
   \<and> (''rtept'' \<notin> tags t \<and> ''wpt'' \<notin> tags t \<longrightarrow>
        parse (WellFormed (retag ''trkpt'' ''rtept'' t)) = parse (WellFormed t)
        \<and> parse (WellFormed (retag ''trkpt'' ''wpt'' t)) = parse (WellFormed t))"
proof (intro conjI impI)
  show "select_trackPoints d =
     (if doc_getElementsByTagName d ''trkpt'' \<noteq> [] then doc_getElementsByTagName d ''trkpt''
      else if doc_getElementsByTagName d ''rtept'' \<noteq> [] then doc_getElementsByTagName d ''rtept''
      else doc_getElementsByTagName d ''wpt'')"
    by (simp add: select_trackPoints_def Let_def)
next
  assume "parse src = Inr g"
  then show "points g = collect_points (select_trackPoints (parseFromString src))"
    by (rule parse_Inr)
next
  assume a: "''rtept'' \<notin> tags t \<and> ''wpt'' \<notin> tags t"
  then have s: "select_trackPoints (Document t) = doc_getElementsByTagName (Document t) ''trkpt''"
    by (simp add: select_trackPoints_only_trkpt)
  show "parse (WellFormed (retag ''trkpt'' ''rtept'' t)) = parse (WellFormed t)"
    using a s by (intro parse_retag) (simp_all add: select_trackPoints_as_rtept)
next
  assume a: "''rtept'' \<notin> tags t \<and> ''wpt'' \<notin> tags t"
  then have s: "select_trackPoints (Document t) = doc_getElementsByTagName (Document t) ''trkpt''"
    by (simp add: select_trackPoints_only_trkpt)
  show "parse (WellFormed (retag ''trkpt'' ''wpt'' t)) = parse (WellFormed t)"
    using a s by (intro parse_retag) (simp_all add: select_trackPoints_as_wpt)
qed

theorem tier_selection_witness:
  "parse (WellFormed (Element ''gpx'' [] [Element ''rte'' [] [rtept ''39.9'' ''116.4'' [], rtept ''40.0'' ''116.5'' []]]))
     = parse (WellFormed (Element ''gpx'' [] [Element ''rte'' [] [trkpt ''39.9'' ''116.4'' [], trkpt ''40.0'' ''116.5'' []]]))
   \<and> parse (WellFormed (Element ''gpx'' [] [Element ''rte'' [] [wpt ''39.9'' ''116.4'' [], wpt ''40.0'' ''116.5'' []]]))
     = parse (WellFormed (Element ''gpx'' [] [Element ''rte'' [] [trkpt ''39.9'' ''116.4'' [], trkpt ''40.0'' ''116.5'' []]]))
   \<and> (\<exists>g. parse (WellFormed doc_two_points) = Inr g
         \<and> points g = collect_points (select_trackPoints (Document doc_two_points)))"
proof -
  have "doc_getElementsByTagName (parseFromString (WellFormed doc_two_points)) ''parsererror'' = []
      \<and> tier_elements (parseFromString (WellFormed doc_two_points)) \<noteq> []
      \<and> 2 \<le> length (collect_points (select_trackPoints (parseFromString (WellFormed doc_two_points))))"
    by (simp add: doc_two_points_def tier_elements_def eval_parse)
  then obtain g where g: "parse (WellFormed doc_two_points) = Inr g"
    using parse_ok by blast
  from tier_selection [of "Document doc_two_points" "WellFormed doc_two_points" g
      "Element ''gpx'' [] [Element ''rte'' [] [trkpt ''39.9'' ''116.4'' [], trkpt ''40.0'' ''116.5'' []]]"] g
  show ?thesis by (simp add: trkpt_def rtept_def wpt_def)
qed

section \<open>Distance\<close>














section \<open>Estimated time\<close>














section \<open>What \<open>generateGPX\<close> writes\<close>

lemma replicate_numeral: "replicate (numeral k) x = x # replicate (pred_numeral k) x"
  by (simp add: numeral_eq_Suc)

lemmas eval_toString = positive_toString_def scale_search.simps sig_digits.simps nat_digits.simps
  digit_char_def replicate_numeral

lemma append_point_acc: "append_point gpx point = gpx @ append_point [] point"
  by (simp add: append_point_def Let_def split: option.splits)

lemma foldl_append_point: "foldl append_point gpx pts = gpx @ concat (map (append_point []) pts)"
proof (induction pts arbitrary: gpx)
  case Nil
  show ?case by simp
next
  case (Cons p pts)
  have "foldl append_point (append_point gpx p) pts
      = append_point gpx p @ concat (map (append_point []) pts)"
    by (rule Cons.IH)
  then show ?case
    by (simp add: append_point_acc [of gpx p])
qed

lemma generateGPX_parts:
  "generateGPX now gpxData title =
     (''<?xml version=\"1.0\" encoding=\"UTF-8\"?>\<newline>''
        @ ''<gpx version=\"1.1\" creator=\"ADV Moto Hub\" xmlns=\"http://www.topografix.com/GPX/1/1\">\<newline>''
        @ ''  <metadata>\<newline>''
        @ ''    <name>'' @ escapeXml title @ ''</name>\<newline>''
        @ ''    <time>'')
     @ now
     @ (''</time>\<newline>''
        @ ''  </metadata>\<newline>''
        @ ''  <trk>\<newline>''
        @ ''    <name>'' @ escapeXml title @ ''</name>\<newline>''
        @ ''    <trkseg>\<newline>''
        @ concat (map (append_point []) (points gpxData))
        @ ''    </trkseg>\<newline>  </trk>\<newline></gpx>'')"
  unfolding generateGPX_def Let_def foldl_append_point by (simp only: append_assoc)

text \<open>
  C9, amended: \<^verbatim>\<open>parse\<close>, \<^verbatim>\<open>toGeoJSONCoordinates\<close> and \<^verbatim>\<open>getElevationData\<close> read
  nothing but their arguments, and are functions of them here. \<^verbatim>\<open>generateGPX\<close> also
  reads the clock and writes the time into the metadata: two calls with the same track
  and title return the same text exactly when their clock readings are the same.
\<close>

theorem generateGPX_clock:
  "generateGPX now1 gpxData title = generateGPX now2 gpxData title \<longleftrightarrow> now1 = now2"
  unfolding generateGPX_parts [of now1] generateGPX_parts [of now2]
  by (simp only: same_append_eq append_same_eq)

theorem generateGPX_clock_counterexample:
  "generateGPX ''2024-05-01T10:00:00.000Z'' track_two ''Ride''
     \<noteq> generateGPX ''2024-05-01T10:00:00.001Z'' track_two ''Ride''"
  unfolding generateGPX_parts [of "''2024-05-01T10:00:00.000Z''"]
    generateGPX_parts [of "''2024-05-01T10:00:00.001Z''"]
  by (simp only: same_append_eq append_same_eq) simp

text \<open>
  C4: parsing what \<^verbatim>\<open>generateGPX\<close> writes gives the points back. The title goes
  through \<^verbatim>\<open>escapeXml\<close>, the time of a point does not: a time \<^verbatim>\<open>a&b\<close> is written as
  it is, the text is not well-formed, and parsing it fails.
\<close>

theorem generateGPX_unescaped_time:
  "map_sum id (\<lambda>g. generateGPX ''2024-05-01T10:00:00.000Z'' g ''Ride'') (parse (WellFormed doc_amp_time))
     = Inr (''<?xml version=\"1.0\" encoding=\"UTF-8\"?>\<newline>''
        @ ''<gpx version=\"1.1\" creator=\"ADV Moto Hub\" xmlns=\"http://www.topografix.com/GPX/1/1\">\<newline>''
        @ ''  <metadata>\<newline>''
        @ ''    <name>Ride</name>\<newline>''
        @ ''    <time>2024-05-01T10:00:00.000Z</time>\<newline>''
        @ ''  </metadata>\<newline>''
        @ ''  <trk>\<newline>''
        @ ''    <name>Ride</name>\<newline>''
        @ ''    <trkseg>\<newline>''
        @ ''      <trkpt lat=\"1\" lon=\"2\">\<newline>''
        @ ''        <time>a&b</time>\<newline>''
        @ ''      </trkpt>\<newline>''
        @ ''      <trkpt lat=\"3\" lon=\"4\">\<newline>''
        @ ''      </trkpt>\<newline>''
        @ ''    </trkseg>\<newline>''
        @ ''  </trk>\<newline>''
        @ ''</gpx>'')
   \<and> parse NotWellFormed = Inl MalformedDocument"
proof -
  have "doc_getElementsByTagName (parseFromString (WellFormed doc_amp_time)) ''parsererror'' = []
      \<and> tier_elements (parseFromString (WellFormed doc_amp_time)) \<noteq> []
      \<and> 2 \<le> length (collect_points (select_trackPoints (parseFromString (WellFormed doc_amp_time))))"
    by (simp add: doc_amp_time_def tier_elements_def eval_parse)
  then obtain g where g: "parse (WellFormed doc_amp_time) = Inr g"
    using parse_ok by blast
  from parse_Inr(1) [OF g]
  have p: "points g = [\<lparr>lat = Fin 1, lon = Fin 2, ele = None, time = Some ''a&b''\<rparr>,
                       \<lparr>lat = Fin 3, lon = Fin 4, ele = None, time = None\<rparr>]"
    by (simp add: doc_amp_time_def eval_parse)
  have "generateGPX ''2024-05-01T10:00:00.000Z'' g ''Ride'' =
        ''<?xml version=\"1.0\" encoding=\"UTF-8\"?>\<newline>''
        @ ''<gpx version=\"1.1\" creator=\"ADV Moto Hub\" xmlns=\"http://www.topografix.com/GPX/1/1\">\<newline>''
        @ ''  <metadata>\<newline>''
        @ ''    <name>Ride</name>\<newline>''
        @ ''    <time>2024-05-01T10:00:00.000Z</time>\<newline>''
        @ ''  </metadata>\<newline>''
        @ ''  <trk>\<newline>''
        @ ''    <name>Ride</name>\<newline>''
        @ ''    <trkseg>\<newline>''
        @ ''      <trkpt lat=\"1\" lon=\"2\">\<newline>''
        @ ''        <time>a&b</time>\<newline>''
        @ ''      </trkpt>\<newline>''
        @ ''      <trkpt lat=\"3\" lon=\"4\">\<newline>''
        @ ''      </trkpt>\<newline>''
        @ ''    </trkseg>\<newline>''
        @ ''  </trk>\<newline>''
        @ ''</gpx>''"
    unfolding generateGPX_def Let_def p
    by (simp add: append_point_def escapeXml_def replace_char_def eval_toString split del: if_split)
  moreover have "parse NotWellFormed = Inl MalformedDocument"
    by (simp add: parse_def)
  ultimately show ?thesis using g by simp
qed

section \<open>The two projections\<close>

lemma toGeoJSONCoordinates_nth:
  "length (toGeoJSONCoordinates g) = length (points g)
   \<and> (i < length (points g) \<longrightarrow>
        toGeoJSONCoordinates g ! i = [lon (points g ! i), lat (points g ! i)])"
  by (simp add: toGeoJSONCoordinates_def)

lemma getElevationData_nth:
  "length (getElevationData g) = length (points g)
   \<and> (i < length (points g) \<longrightarrow> ele (points g ! i) = None \<longrightarrow> getElevationData g ! i = Fin 0)"
  by (simp add: getElevationData_def)

end
